theory Spec2Isabelle
  imports Complex_Main
begin

section \<open>Engraving configurator: scene model, containment, gesture commit, export\<close>

text \<open>
  The development embeds the core of \<^verbatim>\<open>web/app/configurator/page.tsx\<close>.
  Conventions of the embedding:
  \<^item> a JavaScript \<^verbatim>\<open>number\<close> is a \<^typ>\<open>real\<close>: arithmetic is exact, there is no
    rounding, overflow to infinity or NaN;
  \<^item> a JavaScript string is a \<^typ>\<open>string\<close>; characters outside ASCII are written as
    their UTF-8 bytes;
  \<^item> an optional field \<^verbatim>\<open>f?: T\<close> is a \<^typ>\<open>'a option\<close>, \<^verbatim>\<open>undefined\<close> being \<open>None\<close>;
  \<^item> the React state of the page (\<^verbatim>\<open>items\<close>, \<^verbatim>\<open>selectedId\<close>) is a record
    that every mutating operation takes and returns;
  \<^item> \<^verbatim>\<open>uuid()\<close> is an argument of the operation that calls it;
  \<^item> the conversion of a number to text inside a template literal is an argument
    \<open>fmt\<close> of the exporter.
\<close>

subsection \<open>Product configuration\<close>

record canvas_mm =
  canvas_w :: real
  canvas_h :: real

record engrave_mm =
  engrave_x :: real
  engrave_y :: real
  engrave_w :: real
  engrave_h :: real
  margin :: real

record product =
  code :: string
  canvasMm :: canvas_mm
  engraveMm :: engrave_mm
  minFontMm :: real
  maxFontMm :: real

definition MM_TO_PX :: real where
  "MM_TO_PX = 4"

definition PRODUCT :: product where
  "PRODUCT = \<lparr> code = ''PRKENKO_01'',
               canvasMm = \<lparr> canvas_w = 300, canvas_h = 200 \<rparr>,
               engraveMm = \<lparr> engrave_x = 70, engrave_y = 40, engrave_w = 160,
                             engrave_h = 90, margin = 5 \<rparr>,
               minFontMm = 3,
               maxFontMm = 40 \<rparr>"

subsection \<open>Items\<close>

datatype fontStyle = Normal | Bold | Italic | BoldItalic

datatype align = AlignLeft | AlignCenter | AlignRight

datatype ornamentKind = Heart | Wreath | Star

text \<open>
  The variant part of an item, in the order of the fields of the source types:
  \<^item> \<open>TextItem text fontFamily fontSizeMm fontStyle align fill\<close>
  \<^item> \<open>RectItem w h fillEnabled fill\<close>
  \<^item> \<open>CircleItem r fillEnabled fill\<close>
  \<^item> \<open>LineItem x2 y2\<close>
  \<^item> \<open>OrnamentItem kind scaleMm\<close>
\<close>

datatype shape =
    TextItem string string real fontStyle align "string option"
  | RectItem real real bool "string option"
  | CircleItem real bool "string option"
  | LineItem real real
  | OrnamentItem ornamentKind real

text \<open>\<^verbatim>\<open>BaseItem\<close> together with the variant.\<close>

record item =
  item_id :: string
  item_x :: real
  item_y :: real
  rotation :: "real option"
  stroke :: "string option"
  strokeWidthMm :: "real option"
  shape :: shape

definition BLACK :: string where
  "BLACK = ''#000000''"

subsection \<open>Unit conversion and clamping\<close>

definition mm :: "real \<Rightarrow> real" where
  "mm v = v * MM_TO_PX"

definition pxToMm :: "real \<Rightarrow> real" where
  "pxToMm v = v / MM_TO_PX"

definition clamp :: "real \<Rightarrow> real \<Rightarrow> real \<Rightarrow> real" where
  "clamp v lo hi = max lo (min hi v)"

subsection \<open>Page state\<close>

text \<open>
  The two pieces of React state the core reads and writes: the scene (back to front)
  and the identifier of the selected item.
\<close>

record state =
  items :: "item list"
  selectedId :: "string option"

definition select :: "string option \<Rightarrow> state \<Rightarrow> state" where
  "select i s = s\<lparr>selectedId := i\<rparr>"

text \<open>The initial value of \<^verbatim>\<open>items\<close>: one text item.\<close>

definition initialItems :: "string \<Rightarrow> item list" where
  "initialItems uid =
     [\<lparr> item_id = uid,
        item_x = engrave_x (engraveMm PRODUCT) + 10,
        item_y = engrave_y (engraveMm PRODUCT) + 25,
        rotation = None,
        stroke = None,
        strokeWidthMm = Some 0,
        shape = TextItem (''Lenka & Tom'' @ [CHR 0xC3, CHR 0xA1, CHR 0xC5, CHR 0xA1])
                  ''Playfair Display'' 12 Bold AlignLeft (Some BLACK) \<rparr>]"

definition initialState :: "string \<Rightarrow> state" where
  "initialState uid = \<lparr> items = initialItems uid, selectedId = None \<rparr>"

subsection \<open>Containment check\<close>

text \<open>The legal bounds: the engrave region inset by its margin.\<close>

definition ax1 :: real where
  "ax1 = engrave_x (engraveMm PRODUCT) + margin (engraveMm PRODUCT)"

definition ay1 :: real where
  "ay1 = engrave_y (engraveMm PRODUCT) + margin (engraveMm PRODUCT)"

definition ax2 :: real where
  "ax2 = engrave_x (engraveMm PRODUCT) + engrave_w (engraveMm PRODUCT) - margin (engraveMm PRODUCT)"

definition ay2 :: real where
  "ay2 = engrave_y (engraveMm PRODUCT) + engrave_h (engraveMm PRODUCT) - margin (engraveMm PRODUCT)"

definition withinEngraveArea :: "item \<Rightarrow> bool" where
  "withinEngraveArea it =
     (case shape it of
        TextItem txt ff fs sty al fl \<Rightarrow>
          item_x it \<ge> ax1 \<and> item_y it \<ge> ay1 \<and> item_x it \<le> ax2 \<and> item_y it \<le> ay2
      | RectItem w h fe fl \<Rightarrow>
          item_x it \<ge> ax1 \<and> item_y it \<ge> ay1 \<and> item_x it + w \<le> ax2 \<and> item_y it + h \<le> ay2
      | CircleItem r fe fl \<Rightarrow>
          item_x it - r \<ge> ax1 \<and> item_y it - r \<ge> ay1 \<and> item_x it + r \<le> ax2 \<and> item_y it + r \<le> ay2
      | LineItem x2 y2 \<Rightarrow>
          (let minX = min (item_x it) x2;
               maxX = max (item_x it) x2;
               minY = min (item_y it) y2;
               maxY = max (item_y it) y2
           in minX \<ge> ax1 \<and> minY \<ge> ay1 \<and> maxX \<le> ax2 \<and> maxY \<le> ay2)
      | OrnamentItem kind scaleMm \<Rightarrow>
          (let size = scaleMm
           in item_x it \<ge> ax1 \<and> item_y it \<ge> ay1 \<and> item_x it + size \<le> ax2 \<and> item_y it + size \<le> ay2))"




subsection \<open>Add operations\<close>

text \<open>
  Each operation appends the new item with \<^verbatim>\<open>setItems((p) => [...p, it])\<close> and selects it.
  The argument \<open>uid\<close> is the value of \<^verbatim>\<open>uuid()\<close>.
\<close>

definition addText :: "string \<Rightarrow> state \<Rightarrow> state" where
  "addText uid s =
     (let it = \<lparr> item_id = uid,
                 item_x = engrave_x (engraveMm PRODUCT) + margin (engraveMm PRODUCT) + 5,
                 item_y = engrave_y (engraveMm PRODUCT) + margin (engraveMm PRODUCT) + 15,
                 rotation = None,
                 stroke = None,
                 strokeWidthMm = Some 0,
                 shape = TextItem (''Napi'' @ [CHR 0xC5, CHR 0xA1] @ ''te vlastn'' @ [CHR 0xC3, CHR 0xAD] @ '' text'')
                           ''Inter'' 10 Normal AlignLeft (Some BLACK) \<rparr>
      in select (Some uid) (s\<lparr>items := items s @ [it]\<rparr>))"

definition addRect :: "string \<Rightarrow> state \<Rightarrow> state" where
  "addRect uid s =
     (let it = \<lparr> item_id = uid,
                 item_x = engrave_x (engraveMm PRODUCT) + 10,
                 item_y = engrave_y (engraveMm PRODUCT) + 10,
                 rotation = None,
                 stroke = Some BLACK,
                 strokeWidthMm = Some 0.4,
                 shape = RectItem 40 20 False (Some BLACK) \<rparr>
      in select (Some uid) (s\<lparr>items := items s @ [it]\<rparr>))"

definition addCircle :: "string \<Rightarrow> state \<Rightarrow> state" where
  "addCircle uid s =
     (let it = \<lparr> item_id = uid,
                 item_x = engrave_x (engraveMm PRODUCT) + 30,
                 item_y = engrave_y (engraveMm PRODUCT) + 30,
                 rotation = None,
                 stroke = Some BLACK,
                 strokeWidthMm = Some 0.4,
                 shape = CircleItem 12 False (Some BLACK) \<rparr>
      in select (Some uid) (s\<lparr>items := items s @ [it]\<rparr>))"

definition addLine :: "string \<Rightarrow> state \<Rightarrow> state" where
  "addLine uid s =
     (let it = \<lparr> item_id = uid,
                 item_x = engrave_x (engraveMm PRODUCT) + 10,
                 item_y = engrave_y (engraveMm PRODUCT) + 60,
                 rotation = None,
                 stroke = Some BLACK,
                 strokeWidthMm = Some 0.6,
                 shape = LineItem (engrave_x (engraveMm PRODUCT) + 90)
                                  (engrave_y (engraveMm PRODUCT) + 60) \<rparr>
      in select (Some uid) (s\<lparr>items := items s @ [it]\<rparr>))"

definition addOrnament :: "ornamentKind \<Rightarrow> string \<Rightarrow> state \<Rightarrow> state" where
  "addOrnament kind uid s =
     (let it = \<lparr> item_id = uid,
                 item_x = engrave_x (engraveMm PRODUCT) + 10,
                 item_y = engrave_y (engraveMm PRODUCT) + 10,
                 rotation = None,
                 stroke = Some BLACK,
                 strokeWidthMm = Some 0.4,
                 shape = OrnamentItem kind 25 \<rparr>
      in select (Some uid) (s\<lparr>items := items s @ [it]\<rparr>))"

subsection \<open>Strings\<close>

text \<open>
  \<^verbatim>\<open>s.replaceAll(c, rep)\<close> for a search string of one character, the only way the
  source calls it: every occurrence of the character is replaced, left to right.
\<close>

definition replaceAll :: "char \<Rightarrow> string \<Rightarrow> string \<Rightarrow> string" where
  "replaceAll c rep s = concat (map (\<lambda>x. if x = c then rep else [x]) s)"

definition escapeXml :: "string \<Rightarrow> string" where
  \<open>escapeXml s =
     replaceAll (CHR 0x27) ''&apos;''
       (replaceAll (CHR 0x22) ''&quot;''
         (replaceAll (CHR ''>'') ''&gt;''
           (replaceAll (CHR ''<'') ''&lt;''
             (replaceAll (CHR ''&'') ''&amp;'' s))))\<close>

text \<open>\<^verbatim>\<open>s.includes(sub)\<close>: \<open>sub\<close> occurs in \<open>s\<close> as a contiguous run.\<close>

primrec includes_str :: "string \<Rightarrow> string \<Rightarrow> bool" where
  "includes_str [] sub = (sub = [])"
| "includes_str (c # cs) sub = (take (length sub) (c # cs) = sub \<or> includes_str cs sub)"

text \<open>\<^verbatim>\<open>parts.join(sep)\<close>.\<close>

fun join :: "string \<Rightarrow> string list \<Rightarrow> string" where
  "join sep [] = []"
| "join sep [p] = p"
| "join sep (p # q # ps) = p @ sep @ join sep (q # ps)"

text \<open>
  \<^verbatim>\<open>s.trim()\<close> removes the white space and line terminators of ECMAScript from both
  ends. \<open>whiteSpace\<close> lists them, each as its UTF-8 bytes: U+0009 to U+000D, U+0020,
  U+00A0, U+1680, U+2000 to U+200A, U+2028, U+2029, U+202F, U+205F, U+3000 and U+FEFF.
  \<open>stripLeading\<close> removes from the front of a string, as long as there is one, a run
  that is in the list.
\<close>

definition whiteSpace :: "string list" where
  "whiteSpace =
     [[CHR 0x09], [CHR 0x0A], [CHR 0x0B], [CHR 0x0C], [CHR 0x0D], [CHR 0x20],
      [CHR 0xC2, CHR 0xA0],
      [CHR 0xE1, CHR 0x9A, CHR 0x80],
      [CHR 0xE2, CHR 0x80, CHR 0x80], [CHR 0xE2, CHR 0x80, CHR 0x81],
      [CHR 0xE2, CHR 0x80, CHR 0x82], [CHR 0xE2, CHR 0x80, CHR 0x83],
      [CHR 0xE2, CHR 0x80, CHR 0x84], [CHR 0xE2, CHR 0x80, CHR 0x85],
      [CHR 0xE2, CHR 0x80, CHR 0x86], [CHR 0xE2, CHR 0x80, CHR 0x87],
      [CHR 0xE2, CHR 0x80, CHR 0x88], [CHR 0xE2, CHR 0x80, CHR 0x89],
      [CHR 0xE2, CHR 0x80, CHR 0x8A],
      [CHR 0xE2, CHR 0x80, CHR 0xA8], [CHR 0xE2, CHR 0x80, CHR 0xA9],
      [CHR 0xE2, CHR 0x80, CHR 0xAF],
      [CHR 0xE2, CHR 0x81, CHR 0x9F],
      [CHR 0xE3, CHR 0x80, CHR 0x80],
      [CHR 0xEF, CHR 0xBB, CHR 0xBF]]"

function stripLeading :: "string list \<Rightarrow> string \<Rightarrow> string" where
  "stripLeading ws s =
     (case find (\<lambda>w. w \<noteq> [] \<and> take (length w) s = w) ws of
        None \<Rightarrow> s
      | Some w \<Rightarrow> stripLeading ws (drop (length w) s))"
  by pat_completeness auto
termination
proof (relation "measure (\<lambda>(ws, s). length s)")
  show "wf (measure (\<lambda>(ws, s). length s))"
    by simp
next
  fix ws :: "string list" and s w :: string
  assume "find (\<lambda>w. w \<noteq> [] \<and> take (length w) s = w) ws = Some w"
  then have w: "w \<noteq> []" and t: "take (length w) s = w"
    by (auto simp: find_Some_iff)
  from t have "length w \<le> length s"
    using length_take [of "length w" s] by simp
  with w show "((ws, drop (length w) s), (ws, s)) \<in> measure (\<lambda>(ws, s). length s)"
    by (cases w) simp_all
qed

declare stripLeading.simps [simp del]

definition trim :: "string \<Rightarrow> string" where
  "trim s = rev (stripLeading (map rev whiteSpace) (rev (stripLeading whiteSpace s)))"

text \<open>
  The entity of a character, in the words of the specification: each of the five
  reserved characters has its entity, every other character stands for itself.
\<close>

definition entityOf :: "char \<Rightarrow> string" where
  \<open>entityOf c =
     (if c = CHR ''&'' then ''&amp;''
      else if c = CHR ''<'' then ''&lt;''
      else if c = CHR ''>'' then ''&gt;''
      else if c = CHR 0x22 then ''&quot;''
      else if c = CHR 0x27 then ''&apos;''
      else [c])\<close>

subsection \<open>Validation\<close>

record validation =
  ok :: bool
  problems :: "string list"

definition typeName :: "shape \<Rightarrow> string" where
  "typeName sh =
     (case sh of
        TextItem txt ff fs sty al fl \<Rightarrow> ''text''
      | RectItem w h fe fl \<Rightarrow> ''rect''
      | CircleItem r fe fl \<Rightarrow> ''circle''
      | LineItem x2 y2 \<Rightarrow> ''line''
      | OrnamentItem kind scaleMm \<Rightarrow> ''ornament'')"

text \<open>The two findings, \<^verbatim>\<open>Prvek mimo ...\<close> and \<^verbatim>\<open>Text je ...\<close>.\<close>

definition outsideFinding :: "item \<Rightarrow> string" where
  "outsideFinding it =
     ''Prvek mimo grav'' @ [CHR 0xC3, CHR 0xAD] @ ''rovac'' @ [CHR 0xC3, CHR 0xAD] @
     '' plochu (typ='' @ typeName (shape it) @ '').''"

definition tooSmallFinding :: "(real \<Rightarrow> string) \<Rightarrow> string" where
  "tooSmallFinding fmt =
     ''Text je p'' @ [CHR 0xC5, CHR 0x99, CHR 0xC3, CHR 0xAD] @ ''li'' @ [CHR 0xC5, CHR 0xA1] @
     '' mal'' @ [CHR 0xC3, CHR 0xBD] @ '' (min '' @ fmt (minFontMm PRODUCT) @ '' mm).''"

text \<open>The body of the loop of \<^verbatim>\<open>validateAll\<close> on one item, and the loop.\<close>

definition validateItem :: "(real \<Rightarrow> string) \<Rightarrow> item \<Rightarrow> string list \<Rightarrow> string list" where
  "validateItem fmt it probs =
     (let probs1 = (if \<not> withinEngraveArea it then probs @ [outsideFinding it] else probs)
      in (case shape it of
            TextItem txt ff fontSizeMm sty al fl \<Rightarrow>
              if fontSizeMm < minFontMm PRODUCT then probs1 @ [tooSmallFinding fmt] else probs1
          | _ \<Rightarrow> probs1))"

fun validateLoop :: "(real \<Rightarrow> string) \<Rightarrow> item list \<Rightarrow> string list \<Rightarrow> string list" where
  "validateLoop fmt [] probs = probs"
| "validateLoop fmt (it # its) probs = validateLoop fmt its (validateItem fmt it probs)"

definition validateAll :: "(real \<Rightarrow> string) \<Rightarrow> state \<Rightarrow> validation" where
  "validateAll fmt s =
     (let probs = validateLoop fmt (items s) []
      in \<lparr> ok = (length probs = 0), problems = probs \<rparr>)"

text \<open>
  The findings of one item in the words of the specification: the containment finding
  when the item fails the containment check, then, whatever the containment check says,
  the font finding when the item is a text whose font size is below the minimum.
\<close>

definition isTooSmallText :: "item \<Rightarrow> bool" where
  "isTooSmallText it =
     (case shape it of
        TextItem txt ff fontSizeMm sty al fl \<Rightarrow> fontSizeMm < minFontMm PRODUCT
      | _ \<Rightarrow> False)"

definition findingsOf :: "(real \<Rightarrow> string) \<Rightarrow> item \<Rightarrow> string list" where
  "findingsOf fmt it =
     (if \<not> withinEngraveArea it then [outsideFinding it] else []) @
     (if isTooSmallText it then [tooSmallFinding fmt] else [])"

subsection \<open>Vector export\<close>

record ornament =
  kind :: ornamentKind
  label :: string
  path :: string

definition ORNAMENTS :: "ornament list" where
  "ORNAMENTS =
     [\<lparr> kind = Heart, label = ''Srdce'',
        path = ''M 10 30 C 10 10 30 10 30 20 C 30 10 50 10 50 30 C 50 45 30 55 30 55 C 30 55 10 45 10 30 Z'' \<rparr>,
      \<lparr> kind = Wreath, label = ''V'' @ [CHR 0xC4, CHR 0x9B] @ ''nec'',
        path = ''M 50 30 A 20 20 0 1 1 49.9 30 Z M 50 30 A 12 12 0 1 0 49.9 30 Z'' \<rparr>,
      \<lparr> kind = Star, label = ''Hv'' @ [CHR 0xC4, CHR 0x9B] @ ''zda'',
        path = ''M 30 5 L 37 22 L 55 22 L 40 33 L 46 50 L 30 40 L 14 50 L 20 33 L 5 22 L 23 22 Z'' \<rparr>]"

text \<open>Reading a property of \<^verbatim>\<open>undefined\<close> throws.\<close>

datatype error = TypeError

text \<open>\<^verbatim>\<open>fontStyle.includes(...)\<close> reads the style as the string of the source type.\<close>

definition fontStyleString :: "fontStyle \<Rightarrow> string" where
  "fontStyleString sty =
     (case sty of Normal \<Rightarrow> ''normal'' | Bold \<Rightarrow> ''bold'' | Italic \<Rightarrow> ''italic''
      | BoldItalic \<Rightarrow> ''bold italic'')"

text \<open>
  The three attribute strings computed at the head of the loop body: \<^verbatim>\<open>sw\<close>, \<^verbatim>\<open>rot\<close>
  and, for the variants that have one, \<^verbatim>\<open>fill\<close>. A rotation is truthy when it is
  present and not zero.
\<close>

definition strokeAttr :: "(real \<Rightarrow> string) \<Rightarrow> item \<Rightarrow> string" where
  \<open>strokeAttr fmt it =
     (let strokeColor = (case stroke it of None \<Rightarrow> BLACK | Some c \<Rightarrow> c)
      in if (case strokeWidthMm it of None \<Rightarrow> 0 | Some v \<Rightarrow> v) > 0
         then '' stroke="'' @ strokeColor @ ''" stroke-width="'' @
              (case strokeWidthMm it of None \<Rightarrow> ''undefined'' | Some v \<Rightarrow> fmt v) @ ''"''
         else [])\<close>

definition rotAttr :: "(real \<Rightarrow> string) \<Rightarrow> item \<Rightarrow> string" where
  \<open>rotAttr fmt it =
     (case rotation it of
        None \<Rightarrow> []
      | Some r \<Rightarrow>
          if r \<noteq> 0
          then '' transform="rotate('' @ fmt r @ '' '' @ fmt (item_x it) @ '' '' @
               fmt (item_y it) @ '')"''
          else [])\<close>

definition fillColor :: "string option \<Rightarrow> string" where
  \<open>fillColor fl = '' fill="'' @ (case fl of None \<Rightarrow> BLACK | Some c \<Rightarrow> c) @ ''"''\<close>

definition fillAttr :: "bool \<Rightarrow> string option \<Rightarrow> string" where
  \<open>fillAttr fillEnabled fl = (if fillEnabled then fillColor fl else '' fill="none"'')\<close>

text \<open>The part that one item pushes: exactly one of the five branches applies.\<close>

definition exportItem :: "(real \<Rightarrow> string) \<Rightarrow> item \<Rightarrow> error + string" where
  \<open>exportItem fmt it =
     (let sw = strokeAttr fmt it; rot = rotAttr fmt it
      in case shape it of
           TextItem txt ff fontSizeMm sty al fl \<Rightarrow>
             Inr (''<text x="'' @ fmt (item_x it) @ ''" y="'' @ fmt (item_y it) @
                  ''" font-family="'' @ escapeXml ff @
                  ''" font-size="'' @ fmt fontSizeMm @
                  ''" font-style="'' @
                  (if includes_str (fontStyleString sty) ''italic'' then ''italic'' else ''normal'') @
                  ''" font-weight="'' @
                  (if includes_str (fontStyleString sty) ''bold'' then ''bold'' else ''normal'') @
                  ''" text-anchor="'' @
                  (if al = AlignLeft then ''start'' else if al = AlignCenter then ''middle'' else ''end'') @
                  ''"'' @ fillColor fl @ sw @ rot @ ''>'' @ escapeXml txt @ ''</text>'')
         | RectItem w h fe fl \<Rightarrow>
             Inr (''<rect x="'' @ fmt (item_x it) @ ''" y="'' @ fmt (item_y it) @
                  ''" width="'' @ fmt w @ ''" height="'' @ fmt h @ ''"'' @
                  fillAttr fe fl @ sw @ rot @ '' />'')
         | CircleItem r fe fl \<Rightarrow>
             Inr (''<circle cx="'' @ fmt (item_x it) @ ''" cy="'' @ fmt (item_y it) @
                  ''" r="'' @ fmt r @ ''"'' @ fillAttr fe fl @ sw @ '' />'')
         | LineItem x2 y2 \<Rightarrow>
             Inr (''<line x1="'' @ fmt (item_x it) @ ''" y1="'' @ fmt (item_y it) @
                  ''" x2="'' @ fmt x2 @ ''" y2="'' @ fmt y2 @ ''"'' @ sw @ '' />'')
         | OrnamentItem k scaleMm \<Rightarrow>
             (case find (\<lambda>d. kind d = k) ORNAMENTS of
                None \<Rightarrow> Inl TypeError
              | Some def \<Rightarrow>
                  (let scale = scaleMm / 60
                   in Inr (''<path d="'' @ path def @ ''" fill="none"'' @ sw @
                           '' transform="translate('' @ fmt (item_x it) @ '' '' @
                           fmt (item_y it) @ '') scale('' @ fmt scale @ '')" />''))))\<close>

fun exportLoop :: "(real \<Rightarrow> string) \<Rightarrow> item list \<Rightarrow> string list \<Rightarrow> error + string list" where
  "exportLoop fmt [] parts = Inr parts"
| "exportLoop fmt (it # its) parts =
     (case exportItem fmt it of
        Inl e \<Rightarrow> Inl e
      | Inr p \<Rightarrow> exportLoop fmt its (parts @ [p]))"

definition exportSvgMm :: "(real \<Rightarrow> string) \<Rightarrow> state \<Rightarrow> error + string" where
  \<open>exportSvgMm fmt s =
     (case exportLoop fmt (items s) [] of
        Inl e \<Rightarrow> Inl e
      | Inr parts \<Rightarrow>
          Inr (trim
            ([CHR 0x0A] @ ''<svg xmlns="http://www.w3.org/2000/svg"'' @ [CHR 0x0A] @
             ''  width="'' @ fmt (canvas_w (canvasMm PRODUCT)) @ ''mm"'' @ [CHR 0x0A] @
             ''  height="'' @ fmt (canvas_h (canvasMm PRODUCT)) @ ''mm"'' @ [CHR 0x0A] @
             ''  viewBox="0 0 '' @ fmt (canvas_w (canvasMm PRODUCT)) @ '' '' @
             fmt (canvas_h (canvasMm PRODUCT)) @ ''">'' @ [CHR 0x0A] @
             ''  '' @ join ([CHR 0x0A] @ ''  '') parts @ [CHR 0x0A] @ ''</svg>'')))\<close>

text \<open>
  A number formatter for the examples: the decimal digits of a whole number, with a
  minus sign below zero, as JavaScript prints a whole number of ordinary size.
\<close>

fun natToString :: "nat \<Rightarrow> string" where
  "natToString n =
     (if n < 10 then [''0123456789'' ! n]
      else natToString (n div 10) @ [''0123456789'' ! (n mod 10)])"

definition wholeToString :: "real \<Rightarrow> string" where
  "wholeToString v =
     (if v < 0 then ''-'' @ natToString (nat \<lfloor>- v\<rfloor>) else natToString (nat \<lfloor>v\<rfloor>))"

subsection \<open>Gesture commit\<close>

text \<open>
  The Konva node of a gesture, as far as \<^verbatim>\<open>commitTransform\<close> reads and writes it.
\<close>

record node =
  node_id :: string
  scaleX :: real
  scaleY :: real

text \<open>
  The patches that \<^verbatim>\<open>commitTransform\<close> builds: \<^verbatim>\<open>{ w, h }\<close>, \<^verbatim>\<open>{ r }\<close>,
  \<^verbatim>\<open>{ fontSizeMm }\<close> and \<^verbatim>\<open>{ scaleMm }\<close>.
\<close>

datatype patch =
    PatchWH real real
  | PatchR real
  | PatchFontSizeMm real
  | PatchScaleMm real

text \<open>
  \<^verbatim>\<open>{ ...it, ...patch }\<close>. A field of the patch replaces the field of the item. On an
  item of another variant the field is an extra property that no reader of that
  variant looks at, so the item is the same as far as its type goes.
\<close>

definition applyPatch :: "patch \<Rightarrow> item \<Rightarrow> item" where
  "applyPatch p it =
     (case (p, shape it) of
        (PatchWH w' h', RectItem w h fe fl) \<Rightarrow> it\<lparr>shape := RectItem w' h' fe fl\<rparr>
      | (PatchR r', CircleItem r fe fl) \<Rightarrow> it\<lparr>shape := CircleItem r' fe fl\<rparr>
      | (PatchFontSizeMm fs', TextItem txt ff fs sty al fl) \<Rightarrow>
          it\<lparr>shape := TextItem txt ff fs' sty al fl\<rparr>
      | (PatchScaleMm sc', OrnamentItem k sc) \<Rightarrow> it\<lparr>shape := OrnamentItem k sc'\<rparr>
      | _ \<Rightarrow> it)"

text \<open>\<^verbatim>\<open>!selectedId\<close> holds for \<^verbatim>\<open>null\<close> and for the empty string.\<close>

definition updateSelected :: "patch \<Rightarrow> state \<Rightarrow> state" where
  "updateSelected p s =
     (case selectedId s of
        None \<Rightarrow> s
      | Some sel \<Rightarrow>
          if sel = [] then s
          else s\<lparr>items := map (\<lambda>it. if item_id it = sel then applyPatch p it else it) (items s)\<rparr>)"

definition commitTransform :: "node \<Rightarrow> state \<Rightarrow> state \<times> node" where
  "commitTransform n s =
     (case find (\<lambda>i. item_id i = node_id n) (items s) of
        None \<Rightarrow> (s, n)
      | Some item \<Rightarrow>
          (let sX = scaleX n;
               sY = scaleY n;
               n' = n\<lparr>scaleX := 1, scaleY := 1\<rparr>
           in case shape item of
                RectItem w h fe fl \<Rightarrow>
                  (updateSelected (PatchWH (clamp (w * sX) 1 500) (clamp (h * sY) 1 500)) s, n')
              | CircleItem r fe fl \<Rightarrow>
                  (updateSelected (PatchR (clamp (r * max sX sY) 1 500)) s, n')
              | TextItem txt ff fontSizeMm sty al fl \<Rightarrow>
                  (updateSelected
                     (PatchFontSizeMm
                        (clamp (fontSizeMm * max sX sY) (minFontMm PRODUCT) (maxFontMm PRODUCT))) s,
                   n')
              | OrnamentItem k scaleMm \<Rightarrow>
                  (updateSelected (PatchScaleMm (clamp (scaleMm * max sX sY) 5 120)) s, n')
              | LineItem x2 y2 \<Rightarrow> (s, n')))"

text \<open>
  The bound intervals of the sized attributes in the words of the specification:
  \<open>[1, 500]\<close> for the width and height of a rectangle and the radius of a circle,
  \<open>[minFontMm, maxFontMm]\<close> for a font size, \<open>[5, 120]\<close> for the scale of an
  ornament. A line has no sized attribute.
\<close>

definition sizeWithinClampBounds :: "item \<Rightarrow> bool" where
  "sizeWithinClampBounds it =
     (case shape it of
        TextItem txt ff fontSizeMm sty al fl \<Rightarrow>
          minFontMm PRODUCT \<le> fontSizeMm \<and> fontSizeMm \<le> maxFontMm PRODUCT
      | RectItem w h fe fl \<Rightarrow> 1 \<le> w \<and> w \<le> 500 \<and> 1 \<le> h \<and> h \<le> 500
      | CircleItem r fe fl \<Rightarrow> 1 \<le> r \<and> r \<le> 500
      | LineItem x2 y2 \<Rightarrow> True
      | OrnamentItem k scaleMm \<Rightarrow> 5 \<le> scaleMm \<and> scaleMm \<le> 120)"

subsection \<open>Example scenes\<close>


text \<open>An ornament and a rectangle at the default placement, turned by 45 degrees, without stroke.\<close>

definition rotatedOrnament :: item where
  "rotatedOrnament = \<lparr> item_id = ''orn-1'', item_x = 80, item_y = 50, rotation = Some 45,
                        stroke = Some BLACK, strokeWidthMm = Some 0,
                        shape = OrnamentItem Star 60 \<rparr>"

definition rotatedRect :: item where
  "rotatedRect = \<lparr> item_id = ''rect-3'', item_x = 80, item_y = 50, rotation = Some 45,
                    stroke = Some BLACK, strokeWidthMm = Some 0,
                    shape = RectItem 40 20 False (Some BLACK) \<rparr>"

text \<open>A text outside the legal bounds whose font size is below the minimum.\<close>

definition tinyTextOutside :: item where
  "tinyTextOutside = \<lparr> item_id = ''text-1'', item_x = 0, item_y = 0, rotation = None,
                        stroke = None, strokeWidthMm = Some 0,
                        shape = TextItem ''x'' ''Inter'' 2 Normal AlignLeft (Some BLACK) \<rparr>"

text \<open>The scene after \<^verbatim>\<open>addRect\<close>, and a gesture on the new rectangle.\<close>

definition sceneWithRect :: state where
  "sceneWithRect = addRect ''rect-1'' (initialState ''text-0'')"

definition rectGesture :: node where
  "rectGesture = \<lparr> node_id = ''rect-1'', scaleX = 2, scaleY = 0.5 \<rparr>"

text \<open>A gesture on the same rectangle that passes both bounds.\<close>

definition rectGestureBeyond :: node where
  "rectGestureBeyond = \<lparr> node_id = ''rect-1'', scaleX = 20, scaleY = 0.01 \<rparr>"

text \<open>The scene after \<^verbatim>\<open>addLine\<close>, and a gesture on the new line.\<close>

definition sceneWithLine :: state where
  "sceneWithLine = addLine ''line-1'' (initialState ''text-0'')"

definition lineGesture :: node where
  "lineGesture = \<lparr> node_id = ''line-1'', scaleX = 3, scaleY = 2 \<rparr>"

text \<open>The scene after \<^verbatim>\<open>addCircle\<close>, and a gesture on the new circle that exceeds the bound.\<close>

definition sceneWithCircle :: state where
  "sceneWithCircle = addCircle ''circle-1'' (initialState ''text-0'')"

definition circleGesture :: node where
  "circleGesture = \<lparr> node_id = ''circle-1'', scaleX = 100, scaleY = 2 \<rparr>"

section \<open>Properties\<close>

subsection \<open>Auxiliary facts\<close>

lemmas legal_bounds = ax1_def ay1_def ax2_def ay2_def PRODUCT_def

lemma legal_bounds_values: "ax1 = 75 \<and> ay1 = 45 \<and> ax2 = 225 \<and> ay2 = 125"
  by (simp add: legal_bounds)


text \<open>Clamping, and patches applied to the selected item.\<close>

lemma clamp_within: "lo \<le> hi \<Longrightarrow> lo \<le> clamp v lo hi \<and> clamp v lo hi \<le> hi"
  by (auto simp: clamp_def)

lemma clamp_clamp: "lo \<le> hi \<Longrightarrow> clamp (clamp v lo hi) lo hi = clamp v lo hi"
  by (auto simp: clamp_def)

lemma font_bounds: "minFontMm PRODUCT \<le> maxFontMm PRODUCT"
  by (simp add: PRODUCT_def)

lemma applyPatch_item_id: "item_id (applyPatch p x) = item_id x"
  by (simp add: applyPatch_def split: patch.splits shape.splits)

lemma applyPatch_idem: "applyPatch p (applyPatch p x) = applyPatch p x"
  by (simp add: applyPatch_def split: patch.splits shape.splits)

lemma map_patch_idem:
  "map (\<lambda>x. if item_id x = k then applyPatch p x else x)
     (map (\<lambda>x. if item_id x = k then applyPatch p x else x) xs) =
   map (\<lambda>x. if item_id x = k then applyPatch p x else x) xs"
  by (induction xs) (simp_all add: applyPatch_item_id applyPatch_idem)

lemma find_map_patch:
  "find (\<lambda>i. item_id i = k) xs = Some it \<Longrightarrow>
   find (\<lambda>i. item_id i = k) (map (\<lambda>x. if item_id x = k then applyPatch p x else x) xs) =
     Some (applyPatch p it)"
  by (induction xs) (auto simp: applyPatch_item_id)

lemma find_updateSelected:
  "find (\<lambda>i. item_id i = k) (items s) = Some it \<Longrightarrow> selectedId s = Some k \<Longrightarrow> k \<noteq> [] \<Longrightarrow>
   find (\<lambda>i. item_id i = k) (items (updateSelected p s)) = Some (applyPatch p it)"
  by (simp add: updateSelected_def find_map_patch)

lemma updateSelected_idem: "updateSelected p (updateSelected p s) = updateSelected p s"
proof (cases "selectedId s")
  case None
  then show ?thesis by (simp add: updateSelected_def)
next
  case (Some k)
  then show ?thesis
    using map_patch_idem [of k p "items s"]
    by (simp add: updateSelected_def del: map_map)
qed

lemma updateSelected_selectedId: "selectedId (updateSelected p s) = selectedId s"
  by (simp add: updateSelected_def split: option.splits)

lemma updateSelected_unselected:
  "selectedId s = Some k \<Longrightarrow> k = [] \<Longrightarrow> updateSelected p s = s"
  by (simp add: updateSelected_def)

lemma filter_map_other:
  "filter (\<lambda>x. item_id x \<noteq> k) (map (\<lambda>x. if item_id x = k then applyPatch p x else x) xs) =
   filter (\<lambda>x. item_id x \<noteq> k) xs"
  by (induction xs) (simp_all add: applyPatch_item_id)

lemma map_id_patch:
  "map item_id (map (\<lambda>x. if item_id x = k then applyPatch p x else x) xs) = map item_id xs"
  by (induction xs) (simp_all add: applyPatch_item_id)

lemma updateSelected_other:
  "selectedId s = Some k \<Longrightarrow>
   filter (\<lambda>x. item_id x \<noteq> k) (items (updateSelected p s)) = filter (\<lambda>x. item_id x \<noteq> k) (items s)"
  by (simp add: updateSelected_def filter_map_other)

lemma updateSelected_ids: "map item_id (items (updateSelected p s)) = map item_id (items s)"
  by (simp add: updateSelected_def map_id_patch split: option.splits del: map_map)

lemma clamp_saturates:
  "lo \<le> hi \<Longrightarrow> clamp v lo hi = (if v < lo then lo else if hi < v then hi else v)"
  by (simp add: clamp_def)







text \<open>The loop of \<open>validateAll\<close> collects the findings of the items in order.\<close>

lemma validateLoop_findings:
  "validateLoop fmt its probs = probs @ concat (map (findingsOf fmt) its)"
  by (induction its arbitrary: probs)
    (auto simp: validateItem_def findingsOf_def isTooSmallText_def Let_def split: shape.splits)

lemma length_findings:
  "length (concat (map (findingsOf fmt) its)) =
   length (filter (\<lambda>it. \<not> withinEngraveArea it) its) + length (filter isTooSmallText its)"
  by (induction its) (simp_all add: findingsOf_def)

text \<open>Escaping works character by character.\<close>

lemma escapeXml_entityOf: "escapeXml s = concat (map entityOf s)"
  by (induction s) (simp_all add: escapeXml_def replaceAll_def entityOf_def)

lemma entityOf_no_markup:
  \<open>CHR ''<'' \<notin> set (entityOf c) \<and> CHR ''>'' \<notin> set (entityOf c) \<and>
   CHR 0x22 \<notin> set (entityOf c) \<and> CHR 0x27 \<notin> set (entityOf c)\<close>
  by (simp add: entityOf_def)

lemma escapeXml_no_markup:
  \<open>CHR ''<'' \<notin> set (escapeXml s) \<and> CHR ''>'' \<notin> set (escapeXml s) \<and>
   CHR 0x22 \<notin> set (escapeXml s) \<and> CHR 0x27 \<notin> set (escapeXml s)\<close>
  using entityOf_no_markup by (auto simp: escapeXml_entityOf)

lemma entityOf_amp_first:
  assumes "i < length (entityOf c)" and "entityOf c ! i = CHR ''&''"
  shows "i = 0 \<and> entityOf c \<in> set [''&amp;'', ''&lt;'', ''&gt;'', ''&quot;'', ''&apos;'']"
  using assms
  by (auto simp: entityOf_def less_Suc_eq nth_Cons' split: if_splits)

lemma amp_starts_entity:
  \<open>i < length (concat (map entityOf s)) \<Longrightarrow> concat (map entityOf s) ! i = CHR ''&'' \<Longrightarrow>
   \<exists>e \<in> set [''&amp;'', ''&lt;'', ''&gt;'', ''&quot;'', ''&apos;''].
     take (length e) (drop i (concat (map entityOf s))) = e\<close>
proof (induction s arbitrary: i)
  case Nil
  then show ?case by simp
next
  case (Cons c s)
  show ?case
  proof (cases "i < length (entityOf c)")
    case True
    with Cons.prems have "entityOf c ! i = CHR ''&''"
      by (simp add: nth_append)
    with True have "i = 0" and e: "entityOf c \<in> set [''&amp;'', ''&lt;'', ''&gt;'', ''&quot;'', ''&apos;'']"
      using entityOf_amp_first by blast+
    have "take (length (entityOf c)) (drop i (concat (map entityOf (c # s)))) = entityOf c"
      using \<open>i = 0\<close> by simp
    with e show ?thesis by blast
  next
    case False
    then have d: "drop i (concat (map entityOf (c # s))) =
        drop (i - length (entityOf c)) (concat (map entityOf s))"
      by simp
    from False Cons.prems have "i - length (entityOf c) < length (concat (map entityOf s))"
      and "concat (map entityOf s) ! (i - length (entityOf c)) = CHR ''&''"
      by (auto simp: nth_append)
    from Cons.IH [OF this] show ?thesis
      unfolding d .
  qed
qed

text \<open>The exported element of a text and of an ornament, written out.\<close>

lemma includes_italic:
  "includes_str (fontStyleString sty) ''italic'' = (sty = Italic \<or> sty = BoldItalic)"
  by (cases sty) (simp_all add: fontStyleString_def)

lemma includes_bold:
  "includes_str (fontStyleString sty) ''bold'' = (sty = Bold \<or> sty = BoldItalic)"
  by (cases sty) (simp_all add: fontStyleString_def)

lemma strokeAttr_base:
  "strokeAttr fmt (b\<lparr>shape := sh\<rparr>) = strokeAttr fmt b"
  "strokeAttr fmt (b\<lparr>rotation := ro, shape := sh\<rparr>) = strokeAttr fmt b"
  by (simp_all add: strokeAttr_def)

lemma strokeAttr_rotation: "strokeAttr fmt (b\<lparr>rotation := ro\<rparr>) = strokeAttr fmt b"
  by (simp add: strokeAttr_def)

lemma exportItem_ornament:
  \<open>exportItem fmt (b\<lparr>shape := OrnamentItem k sc\<rparr>) =
     Inr (''<path d="'' @
          (case k of
             Heart \<Rightarrow> ''M 10 30 C 10 10 30 10 30 20 C 30 10 50 10 50 30 C 50 45 30 55 30 55 C 30 55 10 45 10 30 Z''
           | Wreath \<Rightarrow> ''M 50 30 A 20 20 0 1 1 49.9 30 Z M 50 30 A 12 12 0 1 0 49.9 30 Z''
           | Star \<Rightarrow> ''M 30 5 L 37 22 L 55 22 L 40 33 L 46 50 L 30 40 L 14 50 L 20 33 L 5 22 L 23 22 Z'') @
          ''" fill="none"'' @ strokeAttr fmt b @
          '' transform="translate('' @ fmt (item_x b) @ '' '' @ fmt (item_y b) @
          '') scale('' @ fmt (sc / 60) @ '')" />'')\<close>
  by (cases k) (simp_all add: exportItem_def ORNAMENTS_def strokeAttr_base)

lemma rotAttr_base: "rotAttr fmt (b\<lparr>shape := sh\<rparr>) = rotAttr fmt b"
  by (simp add: rotAttr_def split: option.splits)

lemma exportItem_text:
  \<open>exportItem fmt (b\<lparr>shape := TextItem tx ff fs sty al fl\<rparr>) =
     Inr (''<text x="'' @ fmt (item_x b) @ ''" y="'' @ fmt (item_y b) @
          ''" font-family="'' @ escapeXml ff @ ''" font-size="'' @ fmt fs @
          ''" font-style="'' @ (if sty = Italic \<or> sty = BoldItalic then ''italic'' else ''normal'') @
          ''" font-weight="'' @ (if sty = Bold \<or> sty = BoldItalic then ''bold'' else ''normal'') @
          ''" text-anchor="'' @
          (case al of AlignLeft \<Rightarrow> ''start'' | AlignCenter \<Rightarrow> ''middle'' | AlignRight \<Rightarrow> ''end'') @
          ''"'' @ fillColor fl @ strokeAttr fmt b @ rotAttr fmt b @ ''>'' @ escapeXml tx @
          ''</text>'')\<close>
  by (cases al) (simp_all add: exportItem_def includes_italic includes_bold strokeAttr_base
      rotAttr_base del: includes_str.simps)

lemma find_ornament: "\<exists>d. find (\<lambda>d. kind d = k) ORNAMENTS = Some d \<and> kind d = k"
  by (cases k) (simp_all add: ORNAMENTS_def)

lemma exportItem_ornament_entry:
  assumes "find (\<lambda>d. kind d = k) ORNAMENTS = Some d"
  shows \<open>exportItem fmt (b\<lparr>shape := OrnamentItem k sc\<rparr>) =
     Inr (''<path d="'' @ path d @ ''" fill="none"'' @ strokeAttr fmt b @
          '' transform="translate('' @ fmt (item_x b) @ '' '' @ fmt (item_y b) @
          '') scale('' @ fmt (sc / 60) @ '')" />'')\<close>
  using assms by (simp add: exportItem_def strokeAttr_base)

text \<open>The loop of the exporter pushes one part for each item, and the document holds them.\<close>

lemma exportItem_total: "\<exists>p. exportItem fmt it = Inr p"
proof (cases "shape it")
  case (OrnamentItem k sc)
  obtain d where "find (\<lambda>d. kind d = k) ORNAMENTS = Some d"
    using find_ornament by blast
  with OrnamentItem show ?thesis
    by (simp add: exportItem_def)
qed (simp_all add: exportItem_def)

lemma exportLoop_parts:
  "exportLoop fmt its parts = Inr (parts @ map (\<lambda>it. projr (exportItem fmt it)) its)"
proof (induction its arbitrary: parts)
  case Nil
  then show ?case by simp
next
  case (Cons it its)
  obtain p where p: "exportItem fmt it = Inr p"
    using exportItem_total by blast
  then show ?case
    by (simp add: Cons.IH)
qed

lemma stripLeading_stop:
  "find (\<lambda>w. w \<noteq> [] \<and> take (length w) s = w) ws = None \<Longrightarrow> stripLeading ws s = s"
  by (simp add: stripLeading.simps)

lemma trim_document:
  "trim (CHR 0x0A # CHR ''<'' # body @ ''>'') = CHR ''<'' # body @ ''>''"
proof -
  have a: "stripLeading whiteSpace (CHR 0x0A # CHR ''<'' # body @ ''>'') =
      stripLeading whiteSpace (CHR ''<'' # body @ ''>'')"
    by (subst stripLeading.simps) (simp add: whiteSpace_def)
  have b: "stripLeading whiteSpace (CHR ''<'' # body @ ''>'') = CHR ''<'' # body @ ''>''"
    by (rule stripLeading_stop) (simp add: whiteSpace_def)
  have c: "stripLeading (map rev whiteSpace) (CHR ''>'' # rev body @ ''<'') =
      CHR ''>'' # rev body @ ''<''"
    by (rule stripLeading_stop) (simp add: whiteSpace_def)
  show ?thesis
    by (simp add: trim_def a b c)
qed

lemma exportSvgMm_document:
  \<open>exportSvgMm fmt s =
     Inr (''<svg xmlns="http://www.w3.org/2000/svg"'' @ [CHR 0x0A] @
          ''  width="'' @ fmt 300 @ ''mm"'' @ [CHR 0x0A] @
          ''  height="'' @ fmt 200 @ ''mm"'' @ [CHR 0x0A] @
          ''  viewBox="0 0 '' @ fmt 300 @ '' '' @ fmt 200 @ ''">'' @ [CHR 0x0A] @
          ''  '' @ join ([CHR 0x0A] @ ''  '') (map (\<lambda>it. projr (exportItem fmt it)) (items s)) @
          [CHR 0x0A] @ ''</svg>'')\<close>
proof -
  let ?body = \<open>''svg xmlns="http://www.w3.org/2000/svg"'' @ [CHR 0x0A] @
          ''  width="'' @ fmt 300 @ ''mm"'' @ [CHR 0x0A] @
          ''  height="'' @ fmt 200 @ ''mm"'' @ [CHR 0x0A] @
          ''  viewBox="0 0 '' @ fmt 300 @ '' '' @ fmt 200 @ ''">'' @ [CHR 0x0A] @
          ''  '' @ join ([CHR 0x0A] @ ''  '') (map (\<lambda>it. projr (exportItem fmt it)) (items s)) @
          [CHR 0x0A] @ ''</svg''\<close>
  have "exportSvgMm fmt s = Inr (trim (CHR 0x0A # CHR ''<'' # ?body @ ''>''))"
    by (simp add: exportSvgMm_def exportLoop_parts PRODUCT_def)
  then have "exportSvgMm fmt s = Inr (CHR ''<'' # ?body @ ''>'')"
    by (simp only: trim_document)
  then show ?thesis
    by simp
qed

subsection \<open>Containment\<close>



subsection \<open>Add operations\<close>

text \<open>
  Claim C6. With the configured geometry (engrave region at \<open>(70, 40)\<close> of 160 by 90,
  margin 5), the initial text item satisfies the containment check, and each of
  \<open>addText\<close>, \<open>addRect\<close>, \<open>addCircle\<close>, \<open>addLine\<close> and \<open>addOrnament\<close> appends
  exactly one item to the scene, which satisfies the containment check at that moment,
  whatever the scene and the fresh identifier are.
\<close>

theorem add_operations_within_area:
  "list_all withinEngraveArea (items (initialState uid)) \<and>
   items (addText uid s) = items s @ [last (items (addText uid s))] \<and>
   withinEngraveArea (last (items (addText uid s))) \<and>
   items (addRect uid s) = items s @ [last (items (addRect uid s))] \<and>
   withinEngraveArea (last (items (addRect uid s))) \<and>
   items (addCircle uid s) = items s @ [last (items (addCircle uid s))] \<and>
   withinEngraveArea (last (items (addCircle uid s))) \<and>
   items (addLine uid s) = items s @ [last (items (addLine uid s))] \<and>
   withinEngraveArea (last (items (addLine uid s))) \<and>
   items (addOrnament k uid s) = items s @ [last (items (addOrnament k uid s))] \<and>
   withinEngraveArea (last (items (addOrnament k uid s)))"
  by (simp add: initialState_def initialItems_def addText_def addRect_def addCircle_def
      addLine_def addOrnament_def select_def withinEngraveArea_def legal_bounds)


subsection \<open>Validation\<close>

text \<open>
  Claim C3. \<open>validateAll\<close> returns \<open>ok = True\<close> exactly when its list of problems is
  empty. It looks at every item: the problems are the findings of the items one after
  the other in scene order, where an item contributes the containment finding when it
  fails the containment check and, whatever the containment check says, the font
  finding when it is a text whose font size is below the configured minimum. So there
  is one containment finding for each item outside and one font finding for each text
  that is too small, and a single text that is both outside and too small contributes
  the two findings. The function returns the result only: it has no way to change the
  scene.
\<close>

theorem validateAll_collects:
  "ok (validateAll fmt s) = (problems (validateAll fmt s) = []) \<and>
   problems (validateAll fmt s) = concat (map (findingsOf fmt) (items s)) \<and>
   length (problems (validateAll fmt s)) =
     length (filter (\<lambda>it. \<not> withinEngraveArea it) (items s)) +
     length (filter isTooSmallText (items s)) \<and>
   (\<not> withinEngraveArea it \<and> isTooSmallText it \<longrightarrow>
      problems (validateAll fmt \<lparr>items = [it], selectedId = sel\<rparr>) =
        [outsideFinding it, tooSmallFinding fmt])"
  by (simp add: validateAll_def Let_def validateLoop_findings length_findings findingsOf_def)

theorem validateAll_collects_witness:
  "\<not> withinEngraveArea tinyTextOutside \<and> isTooSmallText tinyTextOutside \<and>
   ok (validateAll wholeToString \<lparr>items = [tinyTextOutside], selectedId = None\<rparr>) = False \<and>
   problems (validateAll wholeToString \<lparr>items = [tinyTextOutside], selectedId = None\<rparr>) =
     [''Prvek mimo grav'' @ [CHR 0xC3, CHR 0xAD] @ ''rovac'' @ [CHR 0xC3, CHR 0xAD] @
      '' plochu (typ=text).'',
      ''Text je p'' @ [CHR 0xC5, CHR 0x99, CHR 0xC3, CHR 0xAD] @ ''li'' @ [CHR 0xC5, CHR 0xA1] @
      '' mal'' @ [CHR 0xC3, CHR 0xBD] @ '' (min 3 mm).'']"
proof -
  let ?v = "validateAll wholeToString \<lparr>items = [tinyTextOutside], selectedId = None\<rparr>"
  have out: "\<not> withinEngraveArea tinyTextOutside"
    by (simp add: tinyTextOutside_def withinEngraveArea_def legal_bounds)
  have small: "isTooSmallText tinyTextOutside"
    by (simp add: tinyTextOutside_def isTooSmallText_def PRODUCT_def)
  have msgs: "outsideFinding tinyTextOutside =
      ''Prvek mimo grav'' @ [CHR 0xC3, CHR 0xAD] @ ''rovac'' @ [CHR 0xC3, CHR 0xAD] @
          '' plochu (typ=text).''"
    "tooSmallFinding wholeToString =
      ''Text je p'' @ [CHR 0xC5, CHR 0x99, CHR 0xC3, CHR 0xAD] @ ''li'' @ [CHR 0xC5, CHR 0xA1] @
          '' mal'' @ [CHR 0xC3, CHR 0xBD] @ '' (min 3 mm).''"
    by (simp_all add: outsideFinding_def tooSmallFinding_def tinyTextOutside_def typeName_def
        wholeToString_def PRODUCT_def)
  note t = validateAll_collects [where fmt = wholeToString and it = tinyTextOutside
        and sel = None and s = "\<lparr>items = [tinyTextOutside], selectedId = None\<rparr>"]
  from t out small have p: "problems ?v = [outsideFinding tinyTextOutside, tooSmallFinding wholeToString]"
    by blast
  from t have "ok ?v = (problems ?v = [])"
    by blast
  with p have o: "ok ?v = False"
    by simp
  show ?thesis
    using out small o p unfolding msgs by blast
qed

subsection \<open>Gesture commit\<close>

text \<open>
  Claim C5. Committing a gesture on a rectangle, the selected item as the transformer is
  attached to the selected node, sets its width to \<open>clamp (w * scaleX) 1 500\<close> and its
  height to \<open>clamp (h * scaleY) 1 500\<close>, each axis by its own factor: the product when
  it lies between 1 and 500, 1 when it is below and 500 when it is above. Every other
  attribute of the item stays as it was; the items with other identifiers, the order
  of the scene and the selection do not change. For \<open>w = 40\<close>, \<open>h = 20\<close>,
  \<open>scaleX = 2\<close>, \<open>scaleY = 0.5\<close> the result is \<open>w = 80\<close> and \<open>h = 10\<close>; for
  \<open>scaleX = 20\<close>, \<open>scaleY = 0.01\<close> it is \<open>w = 500\<close> and \<open>h = 1\<close>.
\<close>

theorem commit_rectangle:
  assumes found: "find (\<lambda>i. item_id i = node_id n) (items s) = Some it"
    and rect: "shape it = RectItem w h fe fl"
    and sel: "selectedId s = Some (node_id n)"
    and nonempty: "node_id n \<noteq> []"
  shows "find (\<lambda>i. item_id i = node_id n) (items (fst (commitTransform n s))) =
           Some (it\<lparr>shape :=
             RectItem
               (if w * scaleX n < 1 then 1 else if 500 < w * scaleX n then 500 else w * scaleX n)
               (if h * scaleY n < 1 then 1 else if 500 < h * scaleY n then 500 else h * scaleY n)
               fe fl\<rparr>) \<and>
         clamp (w * scaleX n) 1 500 =
           (if w * scaleX n < 1 then 1 else if 500 < w * scaleX n then 500 else w * scaleX n) \<and>
         clamp (h * scaleY n) 1 500 =
           (if h * scaleY n < 1 then 1 else if 500 < h * scaleY n then 500 else h * scaleY n) \<and>
         filter (\<lambda>x. item_id x \<noteq> node_id n) (items (fst (commitTransform n s))) =
           filter (\<lambda>x. item_id x \<noteq> node_id n) (items s) \<and>
         map item_id (items (fst (commitTransform n s))) = map item_id (items s) \<and>
         selectedId (fst (commitTransform n s)) = selectedId s \<and>
         clamp (40 * 2) 1 500 = 80 \<and> clamp (20 * 0.5) 1 500 = 10"
proof -
  let ?p = "PatchWH (clamp (w * scaleX n) 1 500) (clamp (h * scaleY n) 1 500)"
  have c: "fst (commitTransform n s) = updateSelected ?p s"
    using found rect by (simp add: commitTransform_def Let_def)
  have cw: "clamp (w * scaleX n) 1 500 =
      (if w * scaleX n < 1 then 1 else if 500 < w * scaleX n then 500 else w * scaleX n)"
    by (rule clamp_saturates) simp
  have ch: "clamp (h * scaleY n) 1 500 =
      (if h * scaleY n < 1 then 1 else if 500 < h * scaleY n then 500 else h * scaleY n)"
    by (rule clamp_saturates) simp
  have "find (\<lambda>i. item_id i = node_id n) (items (updateSelected ?p s)) = Some (applyPatch ?p it)"
    using found sel nonempty by (rule find_updateSelected)
  moreover have "applyPatch ?p it =
      it\<lparr>shape := RectItem (clamp (w * scaleX n) 1 500) (clamp (h * scaleY n) 1 500) fe fl\<rparr>"
    using rect by (simp add: applyPatch_def)
  ultimately have f: "find (\<lambda>i. item_id i = node_id n) (items (fst (commitTransform n s))) =
      Some (it\<lparr>shape :=
             RectItem
               (if w * scaleX n < 1 then 1 else if 500 < w * scaleX n then 500 else w * scaleX n)
               (if h * scaleY n < 1 then 1 else if 500 < h * scaleY n then 500 else h * scaleY n)
               fe fl\<rparr>)"
    unfolding c cw ch by simp
  have e: "clamp (40 * 2) 1 500 = 80 \<and> clamp (20 * 0.5) 1 500 = 10"
    by (simp add: clamp_def)
  have fr: "filter (\<lambda>x. item_id x \<noteq> node_id n) (items (fst (commitTransform n s))) =
           filter (\<lambda>x. item_id x \<noteq> node_id n) (items s) \<and>
         map item_id (items (fst (commitTransform n s))) = map item_id (items s) \<and>
         selectedId (fst (commitTransform n s)) = selectedId s"
    using sel by (simp add: c updateSelected_other updateSelected_ids updateSelected_selectedId)
  show ?thesis
    using f cw ch fr e by blast
qed

theorem commit_rectangle_witness:
  "find (\<lambda>i. item_id i = node_id rectGesture) (items sceneWithRect) =
     Some \<lparr> item_id = ''rect-1'', item_x = 80, item_y = 50, rotation = None,
            stroke = Some BLACK, strokeWidthMm = Some 0.4,
            shape = RectItem 40 20 False (Some BLACK) \<rparr> \<and>
   selectedId sceneWithRect = Some (node_id rectGesture) \<and>
   node_id rectGesture \<noteq> [] \<and>
   find (\<lambda>i. item_id i = node_id rectGesture)
     (items (fst (commitTransform rectGesture sceneWithRect))) =
     Some \<lparr> item_id = ''rect-1'', item_x = 80, item_y = 50, rotation = None,
            stroke = Some BLACK, strokeWidthMm = Some 0.4,
            shape = RectItem 80 10 False (Some BLACK) \<rparr> \<and>
   find (\<lambda>i. item_id i = node_id rectGestureBeyond)
     (items (fst (commitTransform rectGestureBeyond sceneWithRect))) =
     Some \<lparr> item_id = ''rect-1'', item_x = 80, item_y = 50, rotation = None,
            stroke = Some BLACK, strokeWidthMm = Some 0.4,
            shape = RectItem 500 1 False (Some BLACK) \<rparr>"
proof -
  let ?it = "\<lparr> item_id = ''rect-1'', item_x = 80, item_y = 50, rotation = None,
            stroke = Some BLACK, strokeWidthMm = Some 0.4,
            shape = RectItem 40 20 False (Some BLACK) \<rparr>"
  have found: "find (\<lambda>i. item_id i = node_id rectGesture) (items sceneWithRect) = Some ?it"
    by (simp add: sceneWithRect_def rectGesture_def addRect_def initialState_def initialItems_def
        select_def PRODUCT_def)
  have found': "find (\<lambda>i. item_id i = node_id rectGestureBeyond) (items sceneWithRect) = Some ?it"
    by (simp add: sceneWithRect_def rectGestureBeyond_def addRect_def initialState_def
        initialItems_def select_def PRODUCT_def)
  have rect: "shape ?it = RectItem 40 20 False (Some BLACK)"
    by simp
  have sel: "selectedId sceneWithRect = Some (node_id rectGesture)"
    by (simp add: sceneWithRect_def rectGesture_def addRect_def select_def)
  have sel': "selectedId sceneWithRect = Some (node_id rectGestureBeyond)"
    by (simp add: sceneWithRect_def rectGestureBeyond_def addRect_def select_def)
  have nonempty: "node_id rectGesture \<noteq> []"
    by (simp add: rectGesture_def)
  have nonempty': "node_id rectGestureBeyond \<noteq> []"
    by (simp add: rectGestureBeyond_def)
  have sc: "scaleX rectGesture = 2" "scaleY rectGesture = 0.5"
    "scaleX rectGestureBeyond = 20" "scaleY rectGestureBeyond = 0.01"
    by (simp_all add: rectGesture_def rectGestureBeyond_def)
  show ?thesis
    using commit_rectangle [OF found rect sel nonempty]
      commit_rectangle [OF found' rect sel' nonempty'] found sel nonempty
    by (simp add: sc)
qed

text \<open>
  Claim C10. Committing a gesture on a line changes nothing: for every scene, every
  node whose identifier denotes a line item, and every pair of scale factors, the page
  state after the commit is the state before it, so every item, the line with its
  endpoints, stroke colour and stroke width included, is as it was.
\<close>

theorem commit_line_noop:
  assumes "find (\<lambda>i. item_id i = node_id n) (items s) = Some it"
    and "shape it = LineItem x2 y2"
  shows "fst (commitTransform n s) = s"
  using assms by (simp add: commitTransform_def Let_def)

theorem commit_line_noop_witness:
  "find (\<lambda>i. item_id i = node_id lineGesture) (items sceneWithLine) =
     Some \<lparr> item_id = ''line-1'', item_x = 80, item_y = 100, rotation = None,
            stroke = Some BLACK, strokeWidthMm = Some 0.6, shape = LineItem 160 100 \<rparr> \<and>
   fst (commitTransform lineGesture sceneWithLine) = sceneWithLine"
proof -
  let ?it = "\<lparr> item_id = ''line-1'', item_x = 80, item_y = 100, rotation = None,
            stroke = Some BLACK, strokeWidthMm = Some 0.6, shape = LineItem 160 100 \<rparr>"
  have found: "find (\<lambda>i. item_id i = node_id lineGesture) (items sceneWithLine) = Some ?it"
    by (simp add: sceneWithLine_def lineGesture_def addLine_def initialState_def initialItems_def
        select_def PRODUCT_def)
  have line: "shape ?it = LineItem 160 100"
    by simp
  show ?thesis
    using commit_line_noop [OF found line] found by simp
qed

text \<open>
  Claim C8. After a gesture commit on the selected item, committing a gesture with
  \<open>scaleX = scaleY = 1\<close> on the same node leaves the scene unchanged, for every
  variant: the first commit stored a clamped value inside its bound interval
  (\<open>[1, 500]\<close> for width, height and radius, \<open>[minFontMm, maxFontMm]\<close> for the font
  size, \<open>[5, 120]\<close> for the ornament scale), and clamping that value times 1 again
  gives the same value.
\<close>

theorem commit_scale_one_unchanged:
  assumes sel: "selectedId s = Some (node_id n)"
    and n': "node_id n' = node_id n" "scaleX n' = 1" "scaleY n' = 1"
  shows "fst (commitTransform n' (fst (commitTransform n s))) = fst (commitTransform n s) \<and>
         (\<forall>it. node_id n \<noteq> [] \<and> find (\<lambda>i. item_id i = node_id n) (items s) = Some it \<longrightarrow>
            (\<exists>it'. find (\<lambda>i. item_id i = node_id n) (items (fst (commitTransform n s))) = Some it' \<and>
                   sizeWithinClampBounds it'))"
proof
  show "fst (commitTransform n' (fst (commitTransform n s))) = fst (commitTransform n s)"
  proof (cases "find (\<lambda>i. item_id i = node_id n) (items s)")
    case None
    then show ?thesis using n' by (simp add: commitTransform_def)
  next
    case (Some it)
    show ?thesis
    proof (cases "node_id n = []")
      case True
      with sel have "updateSelected p s = s" for p
        by (simp add: updateSelected_unselected)
      with Some n' show ?thesis
        by (simp add: commitTransform_def Let_def split: shape.splits)
    next
      case False
      have f: "find (\<lambda>i. item_id i = node_id n) (items (updateSelected p s)) =
          Some (applyPatch p it)" for p
        using Some sel False by (rule find_updateSelected)
      show ?thesis
        using Some n' f
        by (cases "shape it")
          (simp_all add: commitTransform_def Let_def applyPatch_def clamp_clamp font_bounds
            updateSelected_idem)
    qed
  qed
next
  show "\<forall>it. node_id n \<noteq> [] \<and> find (\<lambda>i. item_id i = node_id n) (items s) = Some it \<longrightarrow>
            (\<exists>it'. find (\<lambda>i. item_id i = node_id n) (items (fst (commitTransform n s))) = Some it' \<and>
                   sizeWithinClampBounds it')"
  proof (intro allI impI, elim conjE)
    fix it
    assume ne: "node_id n \<noteq> []"
      and found: "find (\<lambda>i. item_id i = node_id n) (items s) = Some it"
    have f: "find (\<lambda>i. item_id i = node_id n) (items (updateSelected p s)) =
        Some (applyPatch p it)" for p
      using found sel ne by (rule find_updateSelected)
    show "\<exists>it'. find (\<lambda>i. item_id i = node_id n) (items (fst (commitTransform n s))) = Some it' \<and>
                   sizeWithinClampBounds it'"
      using found f
      by (cases "shape it")
        (simp_all add: commitTransform_def Let_def applyPatch_def sizeWithinClampBounds_def
          clamp_within font_bounds)
  qed
qed

theorem commit_scale_one_unchanged_witness:
  "selectedId sceneWithCircle = Some (node_id circleGesture) \<and>
   node_id circleGesture \<noteq> [] \<and>
   find (\<lambda>i. item_id i = node_id circleGesture) (items sceneWithCircle) =
     Some \<lparr> item_id = ''circle-1'', item_x = 100, item_y = 70, rotation = None,
            stroke = Some BLACK, strokeWidthMm = Some 0.4,
            shape = CircleItem 12 False (Some BLACK) \<rparr> \<and>
   find (\<lambda>i. item_id i = node_id circleGesture)
     (items (fst (commitTransform circleGesture sceneWithCircle))) =
     Some \<lparr> item_id = ''circle-1'', item_x = 100, item_y = 70, rotation = None,
            stroke = Some BLACK, strokeWidthMm = Some 0.4,
            shape = CircleItem 500 False (Some BLACK) \<rparr> \<and>
   fst (commitTransform (circleGesture\<lparr>scaleX := 1, scaleY := 1\<rparr>)
          (fst (commitTransform circleGesture sceneWithCircle))) =
     fst (commitTransform circleGesture sceneWithCircle)"
proof -
  have sel: "selectedId sceneWithCircle = Some (node_id circleGesture)"
    by (simp add: sceneWithCircle_def circleGesture_def addCircle_def select_def)
  have ne: "node_id circleGesture \<noteq> []"
    by (simp add: circleGesture_def)
  have found: "find (\<lambda>i. item_id i = node_id circleGesture) (items sceneWithCircle) =
     Some \<lparr> item_id = ''circle-1'', item_x = 100, item_y = 70, rotation = None,
            stroke = Some BLACK, strokeWidthMm = Some 0.4,
            shape = CircleItem 12 False (Some BLACK) \<rparr>"
    by (simp add: sceneWithCircle_def circleGesture_def addCircle_def initialState_def
        initialItems_def select_def PRODUCT_def)
  have after: "find (\<lambda>i. item_id i = node_id circleGesture)
     (items (fst (commitTransform circleGesture sceneWithCircle))) =
     Some \<lparr> item_id = ''circle-1'', item_x = 100, item_y = 70, rotation = None,
            stroke = Some BLACK, strokeWidthMm = Some 0.4,
            shape = CircleItem 500 False (Some BLACK) \<rparr>"
    by (simp add: commitTransform_def updateSelected_def applyPatch_def clamp_def
        sceneWithCircle_def circleGesture_def addCircle_def initialState_def
        initialItems_def select_def PRODUCT_def)
  have n': "node_id (circleGesture\<lparr>scaleX := 1, scaleY := 1\<rparr>) = node_id circleGesture"
    "scaleX (circleGesture\<lparr>scaleX := 1, scaleY := 1\<rparr>) = 1"
    "scaleY (circleGesture\<lparr>scaleX := 1, scaleY := 1\<rparr>) = 1"
    by simp_all
  show ?thesis
    using commit_scale_one_unchanged [OF sel n'] sel ne found after by blast
qed

subsection \<open>Markup escaping\<close>

text \<open>
  Claim C4. For every string, \<open>escapeXml\<close> replaces each occurrence of the five
  reserved characters \<^verbatim>\<open>& < > " '\<close> by its entity and leaves every other character as
  it is; the ampersands are replaced first, so the result is the input with each
  character replaced once, and the ampersand of an entity is not replaced again. The
  result has no \<^verbatim>\<open><\<close>, \<^verbatim>\<open>>\<close>, \<^verbatim>\<open>"\<close> or \<^verbatim>\<open>'\<close>, and every \<^verbatim>\<open>&\<close> in it starts one of the five
  entities. This result is the content of the exported text element. The function is
  total: it gives a result on every string.
\<close>

theorem escapeXml_entities:
  \<open>escapeXml s = concat (map entityOf s) \<and>
   CHR ''<'' \<notin> set (escapeXml s) \<and> CHR ''>'' \<notin> set (escapeXml s) \<and>
   CHR 0x22 \<notin> set (escapeXml s) \<and> CHR 0x27 \<notin> set (escapeXml s) \<and>
   (\<forall>i < length (escapeXml s). escapeXml s ! i = CHR ''&'' \<longrightarrow>
      (\<exists>e \<in> set [''&amp;'', ''&lt;'', ''&gt;'', ''&quot;'', ''&apos;''].
         take (length e) (drop i (escapeXml s)) = e)) \<and>
   exportItem fmt (b\<lparr>shape := TextItem s ff fs sty al fl\<rparr>) =
     Inr (''<text x="'' @ fmt (item_x b) @ ''" y="'' @ fmt (item_y b) @
          ''" font-family="'' @ escapeXml ff @ ''" font-size="'' @ fmt fs @
          ''" font-style="'' @ (if sty = Italic \<or> sty = BoldItalic then ''italic'' else ''normal'') @
          ''" font-weight="'' @ (if sty = Bold \<or> sty = BoldItalic then ''bold'' else ''normal'') @
          ''" text-anchor="'' @
          (case al of AlignLeft \<Rightarrow> ''start'' | AlignCenter \<Rightarrow> ''middle'' | AlignRight \<Rightarrow> ''end'') @
          ''"'' @ fillColor fl @ strokeAttr fmt b @ rotAttr fmt b @ ''>'' @ escapeXml s @
          ''</text>'')\<close>
proof -
  have a: "escapeXml s = concat (map entityOf s)"
    by (rule escapeXml_entityOf)
  have b: \<open>\<forall>i < length (escapeXml s). escapeXml s ! i = CHR ''&'' \<longrightarrow>
      (\<exists>e \<in> set [''&amp;'', ''&lt;'', ''&gt;'', ''&quot;'', ''&apos;''].
         take (length e) (drop i (escapeXml s)) = e)\<close>
    unfolding a using amp_starts_entity by blast
  show ?thesis
    using a b escapeXml_no_markup [of s]
      exportItem_text [where fmt = fmt and b = b and tx = s and ff = ff and fs = fs
        and sty = sty and al = al and fl = fl]
    by blast
qed

theorem escapeXml_entities_witness:
  \<open>escapeXml ''5 < 10 & "ok"'' = ''5 &lt; 10 &amp; &quot;ok&quot;'' \<and>
   2 < length (escapeXml ''5 < 10 & "ok"'') \<and>
   escapeXml ''5 < 10 & "ok"'' ! 2 = CHR ''&'' \<and>
   take 4 (drop 2 (escapeXml ''5 < 10 & "ok"'')) = ''&lt;'' \<and>
   exportItem wholeToString (tinyTextOutside\<lparr>shape :=
       TextItem ''5 < 10 & "ok"'' ''Inter'' 10 Normal AlignLeft None\<rparr>) =
     Inr ''<text x="0" y="0" font-family="Inter" font-size="10" font-style="normal" font-weight="normal" text-anchor="start" fill="#000000">5 &lt; 10 &amp; &quot;ok&quot;</text>''\<close>
proof -
  have v: \<open>escapeXml ''5 < 10 & "ok"'' = ''5 &lt; 10 &amp; &quot;ok&quot;''\<close>
    by (simp add: escapeXml_def replaceAll_def)
  have f: \<open>escapeXml ''Inter'' = ''Inter''\<close>
    by (simp add: escapeXml_def replaceAll_def)
  have n: "wholeToString (item_x tinyTextOutside) = ''0''"
    "wholeToString (item_y tinyTextOutside) = ''0''" "wholeToString 10 = ''10''"
    by (simp_all add: wholeToString_def tinyTextOutside_def)
  have a: \<open>fillColor None = '' fill="#000000"''\<close> "strokeAttr wholeToString tinyTextOutside = []"
    "rotAttr wholeToString tinyTextOutside = []"
    by (simp_all add: fillColor_def BLACK_def strokeAttr_def rotAttr_def tinyTextOutside_def)
  note t = escapeXml_entities [where s = \<open>''5 < 10 & "ok"''\<close> and fmt = wholeToString
        and b = tinyTextOutside and ff = "''Inter''" and fs = 10 and sty = Normal
        and al = AlignLeft and fl = None]
  from t have \<open>exportItem wholeToString (tinyTextOutside\<lparr>shape :=
       TextItem ''5 < 10 & "ok"'' ''Inter'' 10 Normal AlignLeft None\<rparr>) =
     Inr (''<text x="'' @ wholeToString (item_x tinyTextOutside) @ ''" y="'' @
          wholeToString (item_y tinyTextOutside) @
          ''" font-family="'' @ escapeXml ''Inter'' @ ''" font-size="'' @ wholeToString 10 @
          ''" font-style="'' @
          (if Normal = Italic \<or> Normal = BoldItalic then ''italic'' else ''normal'') @
          ''" font-weight="'' @
          (if Normal = Bold \<or> Normal = BoldItalic then ''bold'' else ''normal'') @
          ''" text-anchor="'' @
          (case AlignLeft of AlignLeft \<Rightarrow> ''start'' | AlignCenter \<Rightarrow> ''middle''
           | AlignRight \<Rightarrow> ''end'') @
          ''"'' @ fillColor None @ strokeAttr wholeToString tinyTextOutside @
          rotAttr wholeToString tinyTextOutside @ ''>'' @ escapeXml ''5 < 10 & "ok"'' @
          ''</text>'')\<close>
    by blast
  then have e: \<open>exportItem wholeToString (tinyTextOutside\<lparr>shape :=
       TextItem ''5 < 10 & "ok"'' ''Inter'' 10 Normal AlignLeft None\<rparr>) =
     Inr ''<text x="0" y="0" font-family="Inter" font-size="10" font-style="normal" font-weight="normal" text-anchor="start" fill="#000000">5 &lt; 10 &amp; &quot;ok&quot;</text>''\<close>
    unfolding v f n a by simp
  show ?thesis
    using e by (simp add: v)
qed

subsection \<open>Vector export\<close>

text \<open>
  Claim C2, as stated, fails. The claim says that an ornament whose rotation is set
  gets a rotation transform in its path element. The star ornament at \<open>(80, 50)\<close> with
  rotation 45 is exported with the transform \<^verbatim>\<open>translate(80 50) scale(1)\<close> only: the
  element has no \<^verbatim>\<open>rotate\<close>.
\<close>

theorem rotation_counterexample:
  \<open>rotation rotatedOrnament = Some 45 \<and>
   exportItem wholeToString rotatedOrnament =
     Inr ''<path d="M 30 5 L 37 22 L 55 22 L 40 33 L 46 50 L 30 40 L 14 50 L 20 33 L 5 22 L 23 22 Z" fill="none" transform="translate(80 50) scale(1)" />'' \<and>
   \<not> includes_str ''<path d="M 30 5 L 37 22 L 55 22 L 40 33 L 46 50 L 30 40 L 14 50 L 20 33 L 5 22 L 23 22 Z" fill="none" transform="translate(80 50) scale(1)" />'' ''rotate''\<close>
  by (simp add: rotatedOrnament_def exportItem_def ORNAMENTS_def strokeAttr_def
      wholeToString_def)

text \<open>
  Claim C2, amended. For every item whose rotation is present and not zero, the
  exporter emits the transform \<^verbatim>\<open>rotate(rotation x y)\<close> about the item's own anchor on
  the item's element for the Text and Rectangle variants only. The elements of Circle,
  Line and Ornament never carry a rotation transform: what is exported for them is the
  same whatever the rotation attribute is.
\<close>

theorem rotation_transform:
  \<open>(r \<noteq> 0 \<longrightarrow>
      exportItem fmt (b\<lparr>rotation := Some r, shape := TextItem tx ff fs sty al fl\<rparr>) =
        Inr (''<text x="'' @ fmt (item_x b) @ ''" y="'' @ fmt (item_y b) @
             ''" font-family="'' @ escapeXml ff @ ''" font-size="'' @ fmt fs @
             ''" font-style="'' @
             (if sty = Italic \<or> sty = BoldItalic then ''italic'' else ''normal'') @
             ''" font-weight="'' @
             (if sty = Bold \<or> sty = BoldItalic then ''bold'' else ''normal'') @
             ''" text-anchor="'' @
             (case al of AlignLeft \<Rightarrow> ''start'' | AlignCenter \<Rightarrow> ''middle''
              | AlignRight \<Rightarrow> ''end'') @
             ''"'' @ fillColor fl @ strokeAttr fmt b @
             '' transform="rotate('' @ fmt r @ '' '' @ fmt (item_x b) @ '' '' @
             fmt (item_y b) @ '')"'' @ ''>'' @ escapeXml tx @ ''</text>'') \<and>
      exportItem fmt (b\<lparr>rotation := Some r, shape := RectItem w h fe fl\<rparr>) =
        Inr (''<rect x="'' @ fmt (item_x b) @ ''" y="'' @ fmt (item_y b) @
             ''" width="'' @ fmt w @ ''" height="'' @ fmt h @ ''"'' @
             fillAttr fe fl @ strokeAttr fmt b @
             '' transform="rotate('' @ fmt r @ '' '' @ fmt (item_x b) @ '' '' @
             fmt (item_y b) @ '')"'' @ '' />'')) \<and>
   exportItem fmt (b\<lparr>rotation := ro, shape := CircleItem cr fe fl\<rparr>) =
     exportItem fmt (b\<lparr>rotation := None, shape := CircleItem cr fe fl\<rparr>) \<and>
   exportItem fmt (b\<lparr>rotation := ro, shape := LineItem x2 y2\<rparr>) =
     exportItem fmt (b\<lparr>rotation := None, shape := LineItem x2 y2\<rparr>) \<and>
   exportItem fmt (b\<lparr>rotation := ro, shape := OrnamentItem k sc\<rparr>) =
     exportItem fmt (b\<lparr>rotation := None, shape := OrnamentItem k sc\<rparr>)\<close>
proof -
  have t: \<open>r \<noteq> 0 \<longrightarrow>
      exportItem fmt (b\<lparr>rotation := Some r, shape := TextItem tx ff fs sty al fl\<rparr>) =
        Inr (''<text x="'' @ fmt (item_x b) @ ''" y="'' @ fmt (item_y b) @
             ''" font-family="'' @ escapeXml ff @ ''" font-size="'' @ fmt fs @
             ''" font-style="'' @
             (if sty = Italic \<or> sty = BoldItalic then ''italic'' else ''normal'') @
             ''" font-weight="'' @
             (if sty = Bold \<or> sty = BoldItalic then ''bold'' else ''normal'') @
             ''" text-anchor="'' @
             (case al of AlignLeft \<Rightarrow> ''start'' | AlignCenter \<Rightarrow> ''middle''
              | AlignRight \<Rightarrow> ''end'') @
             ''"'' @ fillColor fl @ strokeAttr fmt b @
             '' transform="rotate('' @ fmt r @ '' '' @ fmt (item_x b) @ '' '' @
             fmt (item_y b) @ '')"'' @ ''>'' @ escapeXml tx @ ''</text>'')\<close>
    using exportItem_text [where fmt = fmt and b = "b\<lparr>rotation := Some r\<rparr>" and tx = tx
        and ff = ff and fs = fs and sty = sty and al = al and fl = fl]
    by (simp add: rotAttr_def strokeAttr_def)
  have re: \<open>r \<noteq> 0 \<longrightarrow>
      exportItem fmt (b\<lparr>rotation := Some r, shape := RectItem w h fe fl\<rparr>) =
        Inr (''<rect x="'' @ fmt (item_x b) @ ''" y="'' @ fmt (item_y b) @
             ''" width="'' @ fmt w @ ''" height="'' @ fmt h @ ''"'' @
             fillAttr fe fl @ strokeAttr fmt b @
             '' transform="rotate('' @ fmt r @ '' '' @ fmt (item_x b) @ '' '' @
             fmt (item_y b) @ '')"'' @ '' />'')\<close>
    by (simp add: exportItem_def rotAttr_def strokeAttr_def)
  have c: "exportItem fmt (b\<lparr>rotation := ro, shape := CircleItem cr fe fl\<rparr>) =
     exportItem fmt (b\<lparr>rotation := None, shape := CircleItem cr fe fl\<rparr>)"
    by (simp add: exportItem_def strokeAttr_base strokeAttr_rotation)
  have l: "exportItem fmt (b\<lparr>rotation := ro, shape := LineItem x2 y2\<rparr>) =
     exportItem fmt (b\<lparr>rotation := None, shape := LineItem x2 y2\<rparr>)"
    by (simp add: exportItem_def strokeAttr_base strokeAttr_rotation)
  have o: "exportItem fmt (b\<lparr>rotation := ro, shape := OrnamentItem k sc\<rparr>) =
     exportItem fmt (b\<lparr>rotation := None, shape := OrnamentItem k sc\<rparr>)"
    using exportItem_ornament [where b = "b\<lparr>rotation := ro\<rparr>" and fmt = fmt and k = k and sc = sc]
      exportItem_ornament [where b = "b\<lparr>rotation := None\<rparr>" and fmt = fmt and k = k and sc = sc]
    by (simp add: strokeAttr_rotation)
  show ?thesis
    using t re c l o by blast
qed

theorem rotation_transform_witness:
  \<open>(45::real) \<noteq> 0 \<and>
   exportItem wholeToString rotatedRect =
     Inr ''<rect x="80" y="50" width="40" height="20" fill="none" transform="rotate(45 80 50)" />'' \<and>
   exportItem wholeToString rotatedOrnament =
     exportItem wholeToString (rotatedOrnament\<lparr>rotation := None\<rparr>)\<close>
proof -
  have nz: "(45::real) \<noteq> 0"
    by simp
  have r: "rotatedRect\<lparr>rotation := Some 45, shape := RectItem 40 20 False (Some BLACK)\<rparr> =
      rotatedRect"
    by (simp add: rotatedRect_def)
  have o: "rotatedOrnament\<lparr>rotation := Some 45, shape := OrnamentItem Star 60\<rparr> = rotatedOrnament"
    "rotatedOrnament\<lparr>rotation := None, shape := OrnamentItem Star 60\<rparr> =
      rotatedOrnament\<lparr>rotation := None\<rparr>"
    by (simp_all add: rotatedOrnament_def)
  have n: "wholeToString 80 = ''80''" "wholeToString 50 = ''50''" "wholeToString 45 = ''45''"
    "wholeToString 40 = ''40''" "wholeToString 20 = ''20''"
    by (simp_all add: wholeToString_def)
  have s: "strokeAttr wholeToString rotatedRect = []" "item_x rotatedRect = 80"
    "item_y rotatedRect = 50"
    by (simp_all add: strokeAttr_def rotatedRect_def)
  note t = rotation_transform [where r = 45 and fmt = wholeToString and b = rotatedRect
      and w = 40 and h = 20 and fe = False and fl = "Some BLACK"]
  note u = rotation_transform [where fmt = wholeToString and b = rotatedOrnament
      and ro = "Some 45" and k = Star and sc = 60]
  from t nz have \<open>exportItem wholeToString rotatedRect =
     Inr ''<rect x="80" y="50" width="40" height="20" fill="none" transform="rotate(45 80 50)" />''\<close>
    unfolding r by (simp add: n s fillAttr_def)
  moreover from u have "exportItem wholeToString rotatedOrnament =
     exportItem wholeToString (rotatedOrnament\<lparr>rotation := None\<rparr>)"
    unfolding o by blast
  ultimately show ?thesis
    using nz by blast
qed

text \<open>
  Claim C9. For every ornament the exporter emits exactly one path element, whose
  outline is the path of the entry of \<open>ORNAMENTS\<close> for its kind, which exists for each
  of the three kinds, with \<^verbatim>\<open>fill="none"\<close> in every case and with the transform
  \<^verbatim>\<open>translate(x y) scale(scaleMm / 60)\<close>. With \<open>scaleMm = 60\<close> the scale factor that is
  printed is exactly 1. In a scene with the items \<open>pre\<close> before the ornament and
  \<open>post\<close> after it, the loop returns the parts of \<open>pre\<close>, then this one part, then
  the parts of \<open>post\<close>, and the document that \<open>exportSvgMm\<close> returns holds these parts
  in this order between its first and last line.
\<close>

theorem export_ornament:
  \<open>let part = (\<lambda>d scale.
          ''<path d="'' @ path d @ ''" fill="none"'' @ strokeAttr fmt b @
          '' transform="translate('' @ fmt (item_x b) @ '' '' @ fmt (item_y b) @
          '') scale('' @ fmt scale @ '')" />'');
       orn = b\<lparr>shape := OrnamentItem k sc\<rparr>;
       others = map (\<lambda>it. projr (exportItem fmt it))
   in \<exists>d. find (\<lambda>d. kind d = k) ORNAMENTS = Some d \<and> kind d = k \<and>
          exportItem fmt orn = Inr (part d (sc / 60)) \<and>
          exportItem fmt (b\<lparr>shape := OrnamentItem k 60\<rparr>) = Inr (part d 1) \<and>
          exportLoop fmt (orn # its) parts = exportLoop fmt its (parts @ [part d (sc / 60)]) \<and>
          exportLoop fmt (pre @ orn # post) [] =
            Inr (others pre @ part d (sc / 60) # others post) \<and>
          exportSvgMm fmt \<lparr>items = pre @ orn # post, selectedId = sel\<rparr> =
            Inr (''<svg xmlns="http://www.w3.org/2000/svg"'' @ [CHR 0x0A] @
                 ''  width="'' @ fmt 300 @ ''mm"'' @ [CHR 0x0A] @
                 ''  height="'' @ fmt 200 @ ''mm"'' @ [CHR 0x0A] @
                 ''  viewBox="0 0 '' @ fmt 300 @ '' '' @ fmt 200 @ ''">'' @ [CHR 0x0A] @
                 ''  '' @
                 join ([CHR 0x0A] @ ''  '') (others pre @ part d (sc / 60) # others post) @
                 [CHR 0x0A] @ ''</svg>'')\<close>
proof -
  obtain d where d: "find (\<lambda>d. kind d = k) ORNAMENTS = Some d" "kind d = k"
    using find_ornament by blast
  note e = exportItem_ornament_entry [OF d(1), where fmt = fmt and b = b]
  show ?thesis
    unfolding Let_def
    using d e [where sc = sc] e [where sc = 60]
    by (intro exI [of _ d]) (simp add: exportLoop_parts exportSvgMm_document)
qed

theorem export_ornament_witness:
  \<open>exportLoop wholeToString [rotatedOrnament] [] =
     Inr [''<path d="M 30 5 L 37 22 L 55 22 L 40 33 L 46 50 L 30 40 L 14 50 L 20 33 L 5 22 L 23 22 Z" fill="none" transform="translate(80 50) scale(1)" />''] \<and>
   exportSvgMm wholeToString \<lparr>items = [rotatedOrnament], selectedId = None\<rparr> =
     Inr (''<svg xmlns="http://www.w3.org/2000/svg"'' @ [CHR 0x0A] @
          ''  width="300mm"'' @ [CHR 0x0A] @
          ''  height="200mm"'' @ [CHR 0x0A] @
          ''  viewBox="0 0 300 200">'' @ [CHR 0x0A] @
          ''  <path d="M 30 5 L 37 22 L 55 22 L 40 33 L 46 50 L 30 40 L 14 50 L 20 33 L 5 22 L 23 22 Z" fill="none" transform="translate(80 50) scale(1)" />'' @
          [CHR 0x0A] @ ''</svg>'')\<close>
proof -
  have o: "rotatedOrnament\<lparr>shape := OrnamentItem Star 60\<rparr> = rotatedOrnament"
    by (simp add: rotatedOrnament_def)
  have f: "find (\<lambda>d. kind d = Star) ORNAMENTS = Some d \<longleftrightarrow>
      d = \<lparr> kind = Star, label = ''Hv'' @ [CHR 0xC4, CHR 0x9B] @ ''zda'',
        path = ''M 30 5 L 37 22 L 55 22 L 40 33 L 46 50 L 30 40 L 14 50 L 20 33 L 5 22 L 23 22 Z'' \<rparr>"
    for d
    by (auto simp: ORNAMENTS_def)
  have n: "wholeToString 300 = ''300''" "wholeToString 200 = ''200''"
    "wholeToString (item_x rotatedOrnament) = ''80''"
    "wholeToString (item_y rotatedOrnament) = ''50''" "wholeToString 1 = ''1''"
    "strokeAttr wholeToString rotatedOrnament = []"
    by (simp_all add: wholeToString_def rotatedOrnament_def strokeAttr_def)
  show ?thesis
    using export_ornament [where fmt = wholeToString and b = rotatedOrnament and k = Star
        and sc = 60 and pre = "[]" and post = "[]" and sel = None and its = "[]" and parts = "[]"]
    unfolding Let_def o f
    by (simp add: n)
qed

subsection \<open>Unit conversion\<close>

text \<open>
  Claim C7. Converting a millimetre value to the device unit and back gives the value
  again: \<open>pxToMm (mm v) = v\<close>, where \<open>mm v = v * K\<close> and \<open>pxToMm d = d / K\<close> for the
  fixed positive constant \<open>K = 4\<close>. Both conversions are total functions. The identity
  holds for every value, in particular for every \<open>v \<ge> 0\<close>.
\<close>

theorem units_round_trip:
  "pxToMm (mm v) = v \<and> mm v = v * 4 \<and> pxToMm d = d / 4 \<and> MM_TO_PX = 4 \<and> 0 < MM_TO_PX"
  by (simp add: mm_def pxToMm_def MM_TO_PX_def)

end
